theory Spec2Isabelle
  imports Complex_Main "HOL-Library.Word"
begin

section \<open>The DebtManagement contract (contracts/Debt\_FHE.sol)\<close>

text \<open>
  A shallow embedding of the Solidity contract \<^verbatim>\<open>DebtManagement\<close>. Storage is a record
  that every state-changing function takes and returns; a \<^verbatim>\<open>require\<close> that fails, a
  checked-arithmetic panic and a reverting library call are values on the left of a sum,
  and a reverted call leaves the storage it was started in.
\<close>

subsection \<open>Solidity value types\<close>

type_synonym uint256 = "256 word"
type_synonym uint32 = "32 word"
type_synonym address = "160 word"
type_synonym bytes32 = "256 word"
type_synonym bytes = "8 word list"
type_synonym externalEuint32 = bytes32

text \<open>
  Solidity 0.8 checks \<^verbatim>\<open>*\<close> on \<^verbatim>\<open>uint256\<close>: a product that does not fit in 256 bits
  panics with code 0x11. The explicit conversion \<^verbatim>\<open>uint32(x)\<close> is not checked: it keeps
  the low 32 bits (\<^const>\<open>ucast\<close>).
\<close>

definition checked_mul :: "uint256 \<Rightarrow> uint256 \<Rightarrow> uint256 option" where
  "checked_mul a b = (if unat a * unat b < 2 ^ 256 then Some (a * b) else None)"

text \<open>
  \<^verbatim>\<open>abi.decode(data, (uint32))\<close>: the data must hold at least one 32-byte slot; the
  first slot is read as a big-endian number, and the decoder reverts when that number is
  not a \<^verbatim>\<open>uint32\<close>.
\<close>

definition be_nat :: "bytes \<Rightarrow> nat" where
  "be_nat bs = foldl (\<lambda>acc b. acc * 256 + unat b) 0 bs"

definition abi_decode_uint32 :: "bytes \<Rightarrow> uint32 option" where
  "abi_decode_uint32 bs =
     (if length bs < 32 then None
      else let v = be_nat (take 32 bs) in
        if v < 2 ^ 32 then Some (of_nat v) else None)"

subsection \<open>The FHE library, as a parameter\<close>

text \<open>
  The contract imports \<^verbatim>\<open>FHE\<close> from \<^verbatim>\<open>@fhevm/solidity\<close>, which is not part of the
  repository. Its functions are fields of a record the contract's functions take as their
  first argument; \<open>'h\<close> is the type \<^verbatim>\<open>euint32\<close> of ciphertext handles.
  \<^item> \<open>fromExternal\<close> is \<^verbatim>\<open>FHE.fromExternal\<close>, which checks the input proof for the
    calling account and reverts (\<open>None\<close>) when it is rejected;
  \<^item> \<open>checkSignatures\<close> is \<^verbatim>\<open>FHE.checkSignatures\<close>, which reverts (\<open>False\<close>) when the
    decryption proof does not match the handles and the cleartexts;
  \<^item> \<open>uninitialized\<close> is the handle a storage slot holds before it is written;
  \<^item> \<open>fhe_encrypt\<close>, \<open>fhe_add\<close>, \<open>fhe_sub\<close>, \<open>fhe_mul\<close>, \<open>fhe_div\<close> and \<open>fhe_exp\<close> are
    \<^verbatim>\<open>FHE.encrypt\<close>, \<^verbatim>\<open>FHE.add\<close>, \<^verbatim>\<open>FHE.sub\<close>, \<^verbatim>\<open>FHE.mul\<close>, \<^verbatim>\<open>FHE.div\<close> and
    \<^verbatim>\<open>FHE.exp\<close>; each returns a handle.
  The library's functions are functions of their arguments: the two calls of
  \<^verbatim>\<open>FHE.fromExternal\<close> in \<^verbatim>\<open>createDebtRecord\<close> return the same handle, and the
  arithmetic functions are taken not to revert. \<^verbatim>\<open>FHE.allowThis\<close> and
  \<^verbatim>\<open>FHE.makePubliclyDecryptable\<close> are recorded as grants in the storage.
\<close>

record 'h fhe =
  fromExternal :: "address \<Rightarrow> externalEuint32 \<Rightarrow> bytes \<Rightarrow> 'h option"
  isInitialized :: "'h \<Rightarrow> bool"
  toBytes32 :: "'h \<Rightarrow> bytes32"
  checkSignatures :: "bytes32 list \<Rightarrow> bytes \<Rightarrow> bytes \<Rightarrow> bool"
  uninitialized :: "'h"
  fhe_encrypt :: "uint32 \<Rightarrow> 'h"
  fhe_add :: "'h \<Rightarrow> 'h \<Rightarrow> 'h"
  fhe_sub :: "'h \<Rightarrow> 'h \<Rightarrow> 'h"
  fhe_mul :: "'h \<Rightarrow> 'h \<Rightarrow> 'h"
  fhe_div :: "'h \<Rightarrow> 'h \<Rightarrow> 'h"
  fhe_exp :: "'h \<Rightarrow> 'h \<Rightarrow> 'h"

subsection \<open>Storage, events and errors\<close>

record 'h DebtRecord =
  debtId :: string
  encryptedAmount :: "'h"
  interestRate :: uint256
  termMonths :: uint256
  owner :: address
  creationDate :: uint256
  decryptedAmount :: uint32
  isVerified :: bool

datatype event =
    DebtRecordCreated string address
  | DebtVerification string uint32

text \<open>The grants of \<^verbatim>\<open>FHE.allowThis\<close> and \<^verbatim>\<open>FHE.makePubliclyDecryptable\<close>.\<close>

datatype 'h grant = AllowThis 'h | PubliclyDecryptable 'h

text \<open>
  \<open>debtRecords\<close> is a Solidity mapping: every key has a value, the zero record until it is
  written. \<open>events\<close> is the log of the events emitted so far, \<open>grants\<close> the permissions
  granted so far.
\<close>

record 'h storage =
  debtRecords :: "string \<Rightarrow> 'h DebtRecord"
  debtIds :: "string list"
  events :: "event list"
  grants :: "'h grant list"

datatype error =
    Require_failed string
  | Panic_overflow
  | FromExternal_reverted
  | CheckSignatures_reverted
  | Abi_decode_reverted

text \<open>The names the specification gives to the failures.\<close>

abbreviation DuplicateRecord :: error where
  "DuplicateRecord \<equiv> Require_failed ''Debt record already exists''"

abbreviation RecordNotFound :: error where
  "RecordNotFound \<equiv> Require_failed ''Debt record does not exist''"

abbreviation AlreadyVerified :: error where
  "AlreadyVerified \<equiv> Require_failed ''Debt already verified''"

record env =
  msg_sender :: address
  block_timestamp :: uint256

definition zero_record :: "'h fhe \<Rightarrow> 'h DebtRecord" where
  "zero_record F =
     \<lparr>debtId = [], encryptedAmount = uninitialized F, interestRate = 0, termMonths = 0,
      owner = 0, creationDate = 0, decryptedAmount = 0, isVerified = False\<rparr>"

definition init_storage :: "'h fhe \<Rightarrow> 'h storage" where
  "init_storage F =
     \<lparr>debtRecords = (\<lambda>_. zero_record F), debtIds = [], events = [], grants = []\<rparr>"

subsection \<open>The contract's functions\<close>

definition createDebtRecord ::
  "'h fhe \<Rightarrow> env \<Rightarrow> 'h storage \<Rightarrow> string \<Rightarrow> externalEuint32 \<Rightarrow> bytes \<Rightarrow> uint256 \<Rightarrow> uint256
     \<Rightarrow> error + 'h storage" where
  "createDebtRecord F e s key extAmount inputProof rate months =
     (if length (debtId (debtRecords s key)) \<noteq> 0 then Inl DuplicateRecord
      else case fromExternal F (msg_sender e) extAmount inputProof of
        None \<Rightarrow> Inl FromExternal_reverted
      | Some h \<Rightarrow>
          if \<not> isInitialized F h then Inl (Require_failed ''Invalid encrypted amount'')
          else Inr (s\<lparr>debtRecords := (debtRecords s)(key :=
                        \<lparr>debtId = key, encryptedAmount = h, interestRate = rate,
                         termMonths = months, owner = msg_sender e,
                         creationDate = block_timestamp e, decryptedAmount = 0,
                         isVerified = False\<rparr>),
                     grants := grants s @ [AllowThis h, PubliclyDecryptable h],
                     debtIds := debtIds s @ [key],
                     events := events s @ [DebtRecordCreated key (msg_sender e)]\<rparr>))"

definition verifyDebtAmount ::
  "'h fhe \<Rightarrow> 'h storage \<Rightarrow> string \<Rightarrow> bytes \<Rightarrow> bytes \<Rightarrow> error + 'h storage" where
  "verifyDebtAmount F s key abiEncodedClearAmount decryptionProof =
     (if \<not> length (debtId (debtRecords s key)) > 0 then Inl RecordNotFound
      else if isVerified (debtRecords s key) then Inl AlreadyVerified
      else let cts = [toBytes32 F (encryptedAmount (debtRecords s key))] in
        if \<not> checkSignatures F cts abiEncodedClearAmount decryptionProof
        then Inl CheckSignatures_reverted
        else case abi_decode_uint32 abiEncodedClearAmount of
          None \<Rightarrow> Inl Abi_decode_reverted
        | Some decodedAmount \<Rightarrow>
            Inr (s\<lparr>debtRecords := (debtRecords s)(key :=
                      (debtRecords s key)\<lparr>decryptedAmount := decodedAmount,
                                           isVerified := True\<rparr>),
                   events := events s @ [DebtVerification key decodedAmount]\<rparr>))"

definition calculateMonthlyPayment :: "'h fhe \<Rightarrow> 'h storage \<Rightarrow> string \<Rightarrow> error + 'h" where
  "calculateMonthlyPayment F s key =
     (if \<not> length (debtId (debtRecords s key)) > 0 then Inl RecordNotFound
      else let monthlyRate = interestRate (debtRecords s key) div 12;
               months = termMonths (debtRecords s key) in
        case checked_mul monthlyRate 1000 of
          None \<Rightarrow> Inl Panic_overflow
        | Some scaledRate \<Rightarrow>
            (case checked_mul months 1000 of
               None \<Rightarrow> Inl Panic_overflow
             | Some scaledMonths \<Rightarrow>
                 let fixedRate = (ucast scaledRate :: uint32);
                     fixedMonths = (ucast scaledMonths :: uint32);
                     rateFactor = fhe_encrypt F fixedRate;
                     monthFactor = fhe_encrypt F fixedMonths;
                     numerator = fhe_mul F (encryptedAmount (debtRecords s key)) rateFactor;
                     denominator =
                       fhe_sub F (fhe_encrypt F 1000)
                         (fhe_exp F (fhe_add F (fhe_encrypt F 1000) rateFactor)
                                    (fhe_sub F (fhe_encrypt F 0) monthFactor))
                 in Inr (fhe_div F numerator denominator)))"

definition getDebtRecord ::
  "'h storage \<Rightarrow> string
     \<Rightarrow> error + (string \<times> uint256 \<times> uint256 \<times> address \<times> uint256 \<times> bool \<times> uint32)" where
  "getDebtRecord s key =
     (if \<not> length (debtId (debtRecords s key)) > 0 then Inl RecordNotFound
      else let r = debtRecords s key in
        Inr (debtId r, interestRate r, termMonths r, owner r, creationDate r,
             isVerified r, decryptedAmount r))"

definition getAllDebtIds :: "'h storage \<Rightarrow> string list" where
  "getAllDebtIds s = debtIds s"

definition isAvailable :: bool where
  "isAvailable = True"

subsection \<open>Transactions\<close>

text \<open>
  A call to the contract. A state-changing call that reverts leaves the storage as it was;
  the \<^verbatim>\<open>view\<close> and \<^verbatim>\<open>pure\<close> functions cannot write storage.
\<close>

datatype call =
    CreateDebtRecord env string externalEuint32 bytes uint256 uint256
  | VerifyDebtAmount string bytes bytes
  | CalculateMonthlyPayment string
  | GetDebtRecord string
  | GetAllDebtIds
  | IsAvailable

definition commit :: "'h storage \<Rightarrow> error + 'h storage \<Rightarrow> 'h storage" where
  "commit s r = (case r of Inl _ \<Rightarrow> s | Inr s' \<Rightarrow> s')"

fun exec :: "'h fhe \<Rightarrow> 'h storage \<Rightarrow> call \<Rightarrow> 'h storage" where
  "exec F s (CreateDebtRecord e key ext prf rate months) =
     commit s (createDebtRecord F e s key ext prf rate months)"
| "exec F s (VerifyDebtAmount key clear prf) = commit s (verifyDebtAmount F s key clear prf)"
| "exec F s (CalculateMonthlyPayment key) = s"
| "exec F s (GetDebtRecord key) = s"
| "exec F s GetAllDebtIds = s"
| "exec F s IsAvailable = s"

fun run :: "'h fhe \<Rightarrow> 'h storage \<Rightarrow> call list \<Rightarrow> 'h storage" where
  "run F s [] = s"
| "run F s (c # cs) = run F (exec F s c) cs"

subsection \<open>Facts about sequences of calls\<close>

text \<open>
  The ids of the \<^verbatim>\<open>createDebtRecord\<close> calls of a sequence that succeed, in the order of
  the calls.
\<close>

fun created_ids :: "'h fhe \<Rightarrow> 'h storage \<Rightarrow> call list \<Rightarrow> string list" where
  "created_ids F s [] = []"
| "created_ids F s (CreateDebtRecord e key ext prf rate months # cs) =
     (case createDebtRecord F e s key ext prf rate months of
        Inl _ \<Rightarrow> created_ids F s cs
      | Inr s' \<Rightarrow> key # created_ids F s' cs)"
| "created_ids F s (c # cs) = created_ids F (exec F s c) cs"

fun is_verify :: "call \<Rightarrow> bool" where
  "is_verify (VerifyDebtAmount key clear prf) = True"
| "is_verify c = False"

text \<open>
  What holds of every storage the contract can reach: a record is stored under its own
  id, a verified record has a non-empty id, and a non-empty id is listed once when its
  record exists and not at all otherwise.
\<close>

definition ledger_inv :: "'h storage \<Rightarrow> bool" where
  "ledger_inv s \<longleftrightarrow>
     (\<forall>k. (debtId (debtRecords s k) = [] \<or> debtId (debtRecords s k) = k)
        \<and> (isVerified (debtRecords s k) \<longrightarrow> debtId (debtRecords s k) \<noteq> [])
        \<and> (k \<noteq> [] \<longrightarrow>
             count_list (debtIds s) k = (if debtId (debtRecords s k) = [] then 0 else 1)))"

text \<open>Two storages that agree on the id list and on the id stored under every key.\<close>

definition same_ids :: "'h storage \<Rightarrow> 'h storage \<Rightarrow> bool" where
  "same_ids s t \<longleftrightarrow>
     debtIds s = debtIds t \<and> (\<forall>k. debtId (debtRecords s k) = debtId (debtRecords t k))"

subsection \<open>The amortization formula\<close>

text \<open>
  The monthly payment as the specification words it. With \<open>r = interestRateAnnual / 12\<close>,
  a division of real numbers, \<open>rateFixed = round (r * 1000)\<close> and
  \<open>termFixed = round (termMonths * 1000)\<close>; the numerator is the encrypted amount times
  \<open>rateFixed\<close> and the result is the numerator divided by
  \<open>1000 - (1 + rateFixed)^(-termFixed)\<close>, every operation being one of the library on
  handles. The plaintexts the library encrypts are 32-bit values, so the formula has a
  value only when \<open>rateFixed\<close> and \<open>termFixed\<close> are below \<open>2^32\<close>; the negated exponent is
  the subtraction from an encrypted zero, the one negation the library offers.
\<close>

definition monthlyPayment_spec :: "'h fhe \<Rightarrow> 'h \<Rightarrow> uint256 \<Rightarrow> uint256 \<Rightarrow> 'h option" where
  "monthlyPayment_spec F amount interestRateAnnual months =
     (let r = real (unat interestRateAnnual) / 12;
          rateFixed = round (r * 1000);
          termFixed = round (real (unat months) * 1000)
      in if rateFixed < 2 ^ 32 \<and> termFixed < 2 ^ 32
         then let numerator = fhe_mul F amount (fhe_encrypt F (of_int rateFixed));
                  denominator =
                    fhe_sub F (fhe_encrypt F 1000)
                      (fhe_exp F (fhe_add F (fhe_encrypt F 1) (fhe_encrypt F (of_int rateFixed)))
                         (fhe_sub F (fhe_encrypt F 0) (fhe_encrypt F (of_int termFixed))))
              in Some (fhe_div F numerator denominator)
         else None)"

text \<open>
  The same formula with \<open>1000 + rateFixed\<close> as the base of the power, and nothing else
  changed.
\<close>

definition monthlyPayment_amended :: "'h fhe \<Rightarrow> 'h \<Rightarrow> uint256 \<Rightarrow> uint256 \<Rightarrow> 'h option" where
  "monthlyPayment_amended F amount interestRateAnnual months =
     (let r = real (unat interestRateAnnual) / 12;
          rateFixed = round (r * 1000);
          termFixed = round (real (unat months) * 1000)
      in if rateFixed < 2 ^ 32 \<and> termFixed < 2 ^ 32
         then let numerator = fhe_mul F amount (fhe_encrypt F (of_int rateFixed));
                  denominator =
                    fhe_sub F (fhe_encrypt F 1000)
                      (fhe_exp F (fhe_add F (fhe_encrypt F 1000) (fhe_encrypt F (of_int rateFixed)))
                         (fhe_sub F (fhe_encrypt F 0) (fhe_encrypt F (of_int termFixed))))
              in Some (fhe_div F numerator denominator)
         else None)"

subsection \<open>A test backend\<close>

text \<open>
  A backend for running the contract on concrete inputs: a handle is the term of the
  operations that produced it, every non-empty input proof and every non-empty decryption
  proof is accepted.
\<close>

datatype ct = Null | Input bytes32 | Const uint32
  | Add ct ct | Sub ct ct | Mul ct ct | Div ct ct | Exp ct ct

definition mock_fhe :: "ct fhe" where
  "mock_fhe =
     \<lparr>fromExternal = (\<lambda>a ext prf. if prf = [] then None else Some (Input ext)),
      isInitialized = (\<lambda>h. h \<noteq> Null),
      toBytes32 = (\<lambda>h. case h of Input w \<Rightarrow> w | _ \<Rightarrow> 0),
      checkSignatures = (\<lambda>cts clear prf. prf \<noteq> []),
      uninitialized = Null,
      fhe_encrypt = Const, fhe_add = Add, fhe_sub = Sub, fhe_mul = Mul, fhe_div = Div,
      fhe_exp = Exp\<rparr>"

definition alice :: env where
  "alice = \<lparr>msg_sender = 10, block_timestamp = 1700000000\<rparr>"

text \<open>The ABI encodings of the \<^verbatim>\<open>uint32\<close> values 1000, 2000 and 0.\<close>

definition abi_1000 :: bytes where
  "abi_1000 = [0,0,0,0,0,0,0,0, 0,0,0,0,0,0,0,0, 0,0,0,0,0,0,0,0, 0,0,0,0,0,0,3,232]"

definition abi_2000 :: bytes where
  "abi_2000 = [0,0,0,0,0,0,0,0, 0,0,0,0,0,0,0,0, 0,0,0,0,0,0,0,0, 0,0,0,0,0,0,7,208]"

definition abi_0 :: bytes where
  "abi_0 = [0,0,0,0,0,0,0,0, 0,0,0,0,0,0,0,0, 0,0,0,0,0,0,0,0, 0,0,0,0,0,0,0,0]"

section \<open>Auxiliary facts\<close>

lemmas mock_eval = run.simps exec.simps commit_def createDebtRecord_def verifyDebtAmount_def
  init_storage_def zero_record_def mock_fhe_def alice_def getDebtRecord_def getAllDebtIds_def
  calculateMonthlyPayment_def checked_mul_def Let_def

lemma abi_decode_1000: "abi_decode_uint32 abi_1000 = Some 1000"
  by (simp add: abi_decode_uint32_def be_nat_def abi_1000_def)

lemma abi_decode_2000: "abi_decode_uint32 abi_2000 = Some 2000"
  by (simp add: abi_decode_uint32_def be_nat_def abi_2000_def)

lemma abi_decode_0: "abi_decode_uint32 abi_0 = Some 0"
  by (simp add: abi_decode_uint32_def be_nat_def abi_0_def)

lemma createDebtRecord_Inr:
  assumes "createDebtRecord F e s key ext prf rate months = Inr s'"
  obtains h where "debtId (debtRecords s key) = []"
    and "fromExternal F (msg_sender e) ext prf = Some h" and "isInitialized F h"
    and "s' = s\<lparr>debtRecords := (debtRecords s)(key :=
                        \<lparr>debtId = key, encryptedAmount = h, interestRate = rate,
                         termMonths = months, owner = msg_sender e,
                         creationDate = block_timestamp e, decryptedAmount = 0,
                         isVerified = False\<rparr>),
                     grants := grants s @ [AllowThis h, PubliclyDecryptable h],
                     debtIds := debtIds s @ [key],
                     events := events s @ [DebtRecordCreated key (msg_sender e)]\<rparr>"
  using assms unfolding createDebtRecord_def
  by (auto split: if_splits option.splits)

lemma verifyDebtAmount_Inr:
  assumes "verifyDebtAmount F s key clear prf = Inr s'"
  obtains v where "debtId (debtRecords s key) \<noteq> []" and "\<not> isVerified (debtRecords s key)"
    and "checkSignatures F [toBytes32 F (encryptedAmount (debtRecords s key))] clear prf"
    and "abi_decode_uint32 clear = Some v"
    and "s' = s\<lparr>debtRecords := (debtRecords s)(key :=
                      (debtRecords s key)\<lparr>decryptedAmount := v, isVerified := True\<rparr>),
                   events := events s @ [DebtVerification key v]\<rparr>"
  using assms unfolding verifyDebtAmount_def
  by (auto simp: Let_def split: if_splits option.splits)

lemma ledger_inv_init: "ledger_inv (init_storage F)"
  by (simp add: ledger_inv_def init_storage_def zero_record_def)

lemma ledger_inv_create:
  assumes "ledger_inv s" and "createDebtRecord F e s key ext prf rate months = Inr s'"
  shows "ledger_inv s'"
  using assms(2)
proof (rule createDebtRecord_Inr)
  fix h
  assume fresh: "debtId (debtRecords s key) = []"
    and s': "s' = s\<lparr>debtRecords := (debtRecords s)(key :=
                        \<lparr>debtId = key, encryptedAmount = h, interestRate = rate,
                         termMonths = months, owner = msg_sender e,
                         creationDate = block_timestamp e, decryptedAmount = 0,
                         isVerified = False\<rparr>),
                     grants := grants s @ [AllowThis h, PubliclyDecryptable h],
                     debtIds := debtIds s @ [key],
                     events := events s @ [DebtRecordCreated key (msg_sender e)]\<rparr>"
  show "ledger_inv s'"
    unfolding ledger_inv_def
  proof (intro allI)
    fix k
    from assms(1) have invk:
      "debtId (debtRecords s k) = [] \<or> debtId (debtRecords s k) = k"
      "isVerified (debtRecords s k) \<longrightarrow> debtId (debtRecords s k) \<noteq> []"
      "k \<noteq> [] \<longrightarrow> count_list (debtIds s) k = (if debtId (debtRecords s k) = [] then 0 else 1)"
      unfolding ledger_inv_def by blast+
    show "(debtId (debtRecords s' k) = [] \<or> debtId (debtRecords s' k) = k)
        \<and> (isVerified (debtRecords s' k) \<longrightarrow> debtId (debtRecords s' k) \<noteq> [])
        \<and> (k \<noteq> [] \<longrightarrow>
             count_list (debtIds s') k = (if debtId (debtRecords s' k) = [] then 0 else 1))"
      using invk fresh by (cases "k = key") (simp_all add: s')
  qed
qed

lemma ledger_inv_verify:
  assumes "ledger_inv s" and "verifyDebtAmount F s key clear prf = Inr s'"
  shows "ledger_inv s'"
  using assms(2)
proof (rule verifyDebtAmount_Inr)
  fix v
  assume ex: "debtId (debtRecords s key) \<noteq> []"
    and s': "s' = s\<lparr>debtRecords := (debtRecords s)(key :=
                      (debtRecords s key)\<lparr>decryptedAmount := v, isVerified := True\<rparr>),
                   events := events s @ [DebtVerification key v]\<rparr>"
  show "ledger_inv s'"
    unfolding ledger_inv_def
  proof (intro allI)
    fix k
    from assms(1) have invk:
      "debtId (debtRecords s k) = [] \<or> debtId (debtRecords s k) = k"
      "isVerified (debtRecords s k) \<longrightarrow> debtId (debtRecords s k) \<noteq> []"
      "k \<noteq> [] \<longrightarrow> count_list (debtIds s) k = (if debtId (debtRecords s k) = [] then 0 else 1)"
      unfolding ledger_inv_def by blast+
    show "(debtId (debtRecords s' k) = [] \<or> debtId (debtRecords s' k) = k)
        \<and> (isVerified (debtRecords s' k) \<longrightarrow> debtId (debtRecords s' k) \<noteq> [])
        \<and> (k \<noteq> [] \<longrightarrow>
             count_list (debtIds s') k = (if debtId (debtRecords s' k) = [] then 0 else 1))"
      using invk ex by (cases "k = key") (simp_all add: s')
  qed
qed

lemma ledger_inv_exec: "ledger_inv s \<Longrightarrow> ledger_inv (exec F s c)"
  by (cases c) (auto simp: commit_def split: sum.splits
      intro: ledger_inv_create ledger_inv_verify)

lemma ledger_inv_run: "ledger_inv s \<Longrightarrow> ledger_inv (run F s cs)"
  by (induction cs arbitrary: s) (simp_all add: ledger_inv_exec)

lemma ledger_inv_reachable: "ledger_inv (run F (init_storage F) cs)"
  by (rule ledger_inv_run [OF ledger_inv_init])

section \<open>Verification of the amount\<close>

text \<open>
  C2. In a storage reached from the empty registry, a \<^verbatim>\<open>verifyDebtAmount\<close> call on a
  record whose \<open>isVerified\<close> flag is set fails with ``Debt already verified'', whatever the
  cleartext, the proof and the library's signature check are; the storage, and with it
  \<open>decryptedAmount\<close> and the event log, stay as they were.
\<close>

theorem verify_after_verified_fails:
  assumes "s = run F (init_storage F) cs" and "isVerified (debtRecords s key)"
  shows "verifyDebtAmount G s key clear prf = Inl AlreadyVerified
    \<and> exec G s (VerifyDebtAmount key clear prf) = s
    \<and> decryptedAmount (debtRecords (exec G s (VerifyDebtAmount key clear prf)) key)
        = decryptedAmount (debtRecords s key)
    \<and> events (exec G s (VerifyDebtAmount key clear prf)) = events s"
proof -
  have "ledger_inv s"
    using assms(1) ledger_inv_reachable by simp
  with assms(2) have "debtId (debtRecords s key) \<noteq> []"
    unfolding ledger_inv_def by blast
  with assms(2) have "verifyDebtAmount G s key clear prf = Inl AlreadyVerified"
    by (simp add: verifyDebtAmount_def)
  then show ?thesis
    by (simp add: commit_def)
qed

text \<open>
  After \<open>d1\<close> is verified with 1000, a second call with the cleartext 2000 and a proof
  the test backend rejects fails the same way and the committed amount is still 1000.
\<close>

theorem verify_after_verified_fails_witness:
  "isVerified (debtRecords (run mock_fhe (init_storage mock_fhe)
       [CreateDebtRecord alice ''d1'' 5 [1] 12 24, VerifyDebtAmount ''d1'' abi_1000 [1]]) ''d1'')
   \<and> verifyDebtAmount mock_fhe (run mock_fhe (init_storage mock_fhe)
       [CreateDebtRecord alice ''d1'' 5 [1] 12 24, VerifyDebtAmount ''d1'' abi_1000 [1]])
       ''d1'' abi_2000 [] = Inl AlreadyVerified
   \<and> decryptedAmount (debtRecords (run mock_fhe (init_storage mock_fhe)
       [CreateDebtRecord alice ''d1'' 5 [1] 12 24, VerifyDebtAmount ''d1'' abi_1000 [1],
        VerifyDebtAmount ''d1'' abi_2000 []]) ''d1'') = 1000"
proof -
  let ?s = "run mock_fhe (init_storage mock_fhe)
       [CreateDebtRecord alice ''d1'' 5 [1] 12 24, VerifyDebtAmount ''d1'' abi_1000 [1]]"
  have v: "isVerified (debtRecords ?s ''d1'')"
    by (simp add: mock_eval abi_decode_1000)
  have d: "decryptedAmount (debtRecords ?s ''d1'') = 1000"
    by (simp add: mock_eval abi_decode_1000)
  have r: "run mock_fhe (init_storage mock_fhe)
       [CreateDebtRecord alice ''d1'' 5 [1] 12 24, VerifyDebtAmount ''d1'' abi_1000 [1],
        VerifyDebtAmount ''d1'' abi_2000 []]
     = exec mock_fhe ?s (VerifyDebtAmount ''d1'' abi_2000 [])"
    by simp
  note t = verify_after_verified_fails [OF refl v, of mock_fhe abi_2000 "[]"]
  show ?thesis
    unfolding r by (simp only: t v d)
qed

text \<open>
  C4. Every record that was created and is not verified is to accept a
  \<^verbatim>\<open>verifyDebtAmount\<close> call whose cleartext and proof pass the library's check. The contract
  run on the record created under the empty id: the id is listed, its creation event was
  emitted, the record is not verified, the proof passes \<^verbatim>\<open>FHE.checkSignatures\<close> and the
  cleartext decodes to 1000; the call fails with ``Debt record does not exist'', as
  \<^verbatim>\<open>getDebtRecord\<close> does, and the storage stays as it was.
\<close>

theorem empty_id_record_not_verifiable:
  "getAllDebtIds (run mock_fhe (init_storage mock_fhe)
      [CreateDebtRecord alice [] 5 [1] 12 24]) = [[]]
   \<and> events (run mock_fhe (init_storage mock_fhe)
      [CreateDebtRecord alice [] 5 [1] 12 24]) = [DebtRecordCreated [] 10]
   \<and> \<not> isVerified (debtRecords (run mock_fhe (init_storage mock_fhe)
      [CreateDebtRecord alice [] 5 [1] 12 24]) [])
   \<and> checkSignatures mock_fhe
       [toBytes32 mock_fhe (encryptedAmount (debtRecords (run mock_fhe (init_storage mock_fhe)
          [CreateDebtRecord alice [] 5 [1] 12 24]) []))] abi_1000 [1]
   \<and> abi_decode_uint32 abi_1000 = Some 1000
   \<and> verifyDebtAmount mock_fhe (run mock_fhe (init_storage mock_fhe)
      [CreateDebtRecord alice [] 5 [1] 12 24]) [] abi_1000 [1] = Inl RecordNotFound
   \<and> getDebtRecord (run mock_fhe (init_storage mock_fhe)
      [CreateDebtRecord alice [] 5 [1] 12 24]) [] = Inl RecordNotFound
   \<and> run mock_fhe (init_storage mock_fhe)
      [CreateDebtRecord alice [] 5 [1] 12 24, VerifyDebtAmount [] abi_1000 [1]]
     = run mock_fhe (init_storage mock_fhe) [CreateDebtRecord alice [] 5 [1] 12 24]"
  by (simp add: mock_eval abi_decode_1000)

text \<open>
  For a record with a non-empty stored id that is not verified the call works: when the
  proof passes \<^verbatim>\<open>FHE.checkSignatures\<close> and the cleartext is the ABI encoding of a
  \<^verbatim>\<open>uint32\<close> \<open>v\<close>, it stores \<open>v\<close> in \<open>decryptedAmount\<close>, sets \<open>isVerified\<close>, appends the
  one event \<open>DebtVerification key v\<close>, and \<^verbatim>\<open>getDebtRecord\<close> then returns the record with
  the flag set, the amount \<open>v\<close> and the rate, the term, the owner and the date it had.
\<close>

lemma verify_commits_cleartext:
  assumes "debtId (debtRecords s key) \<noteq> []" and "\<not> isVerified (debtRecords s key)"
    and "checkSignatures F [toBytes32 F (encryptedAmount (debtRecords s key))] clear prf"
    and "abi_decode_uint32 clear = Some v"
  shows "verifyDebtAmount F s key clear prf =
           Inr (s\<lparr>debtRecords := (debtRecords s)(key :=
                      (debtRecords s key)\<lparr>decryptedAmount := v, isVerified := True\<rparr>),
                   events := events s @ [DebtVerification key v]\<rparr>)
    \<and> decryptedAmount (debtRecords (exec F s (VerifyDebtAmount key clear prf)) key) = v
    \<and> isVerified (debtRecords (exec F s (VerifyDebtAmount key clear prf)) key)
    \<and> events (exec F s (VerifyDebtAmount key clear prf)) = events s @ [DebtVerification key v]
    \<and> getDebtRecord (exec F s (VerifyDebtAmount key clear prf)) key =
        Inr (debtId (debtRecords s key), interestRate (debtRecords s key),
             termMonths (debtRecords s key), owner (debtRecords s key),
             creationDate (debtRecords s key), True, v)"
  using assms by (simp add: verifyDebtAmount_def commit_def getDebtRecord_def)

text \<open>The round trip of the specification: \<open>d1\<close> with rate 12 and term 24, verified with 1000.\<close>

lemma verify_commits_cleartext_round_trip:
  "getDebtRecord (run mock_fhe (init_storage mock_fhe)
       [CreateDebtRecord alice ''d1'' 5 [1] 12 24, VerifyDebtAmount ''d1'' abi_1000 [1]]) ''d1''
     = Inr (''d1'', 12, 24, 10, 1700000000, True, 1000)
   \<and> events (run mock_fhe (init_storage mock_fhe)
       [CreateDebtRecord alice ''d1'' 5 [1] 12 24, VerifyDebtAmount ''d1'' abi_1000 [1]])
     = [DebtRecordCreated ''d1'' 10, DebtVerification ''d1'' 1000]"
proof -
  let ?s = "run mock_fhe (init_storage mock_fhe) [CreateDebtRecord alice ''d1'' 5 [1] 12 24]"
  have a: "debtId (debtRecords ?s ''d1'') \<noteq> []" "\<not> isVerified (debtRecords ?s ''d1'')"
    "checkSignatures mock_fhe [toBytes32 mock_fhe (encryptedAmount (debtRecords ?s ''d1''))]
       abi_1000 [1]"
    by (simp_all add: mock_eval)
  have r: "run mock_fhe (init_storage mock_fhe)
       [CreateDebtRecord alice ''d1'' 5 [1] 12 24, VerifyDebtAmount ''d1'' abi_1000 [1]]
     = exec mock_fhe ?s (VerifyDebtAmount ''d1'' abi_1000 [1])"
    by simp
  have f: "debtId (debtRecords ?s ''d1'') = ''d1''" "interestRate (debtRecords ?s ''d1'') = 12"
    "termMonths (debtRecords ?s ''d1'') = 24" "owner (debtRecords ?s ''d1'') = 10"
    "creationDate (debtRecords ?s ''d1'') = 1700000000"
    "events ?s = [DebtRecordCreated ''d1'' 10]"
    by (simp_all add: mock_eval)
  note t = verify_commits_cleartext [OF a abi_decode_1000]
  show ?thesis
    unfolding r by (simp only: t f) simp
qed

text \<open>
  C10. \<^verbatim>\<open>createDebtRecord\<close> stores \<open>decryptedAmount = 0\<close>, a plain \<^verbatim>\<open>uint32\<close>, and
  \<^verbatim>\<open>getDebtRecord\<close> returns the field whatever the flag is: the record as created and the
  record after a verification with the cleartext 0 are returned with the same seven
  components except for the flag, which is \<open>False\<close> before and \<open>True\<close> after.
\<close>

theorem decryptedAmount_zero_ambiguous:
  assumes "createDebtRecord F e s key ext prf rate months = Inr s1" and "key \<noteq> []"
    and "verifyDebtAmount F s1 key clear dprf = Inr s2"
    and "abi_decode_uint32 clear = Some 0"
  shows "decryptedAmount (debtRecords s1 key) = 0
    \<and> getDebtRecord s1 key =
        Inr (key, rate, months, msg_sender e, block_timestamp e, False, 0)
    \<and> getDebtRecord s2 key =
        Inr (key, rate, months, msg_sender e, block_timestamp e, True, 0)"
  using assms unfolding createDebtRecord_def verifyDebtAmount_def getDebtRecord_def
  by (auto simp: Let_def split: if_splits option.splits)

text \<open>The record \<open>d1\<close> before and after a verification with the cleartext 0.\<close>

theorem decryptedAmount_zero_ambiguous_witness:
  "getDebtRecord (run mock_fhe (init_storage mock_fhe)
       [CreateDebtRecord alice ''d1'' 5 [1] 12 24]) ''d1''
     = Inr (''d1'', 12, 24, 10, 1700000000, False, 0)
   \<and> getDebtRecord (run mock_fhe (init_storage mock_fhe)
       [CreateDebtRecord alice ''d1'' 5 [1] 12 24, VerifyDebtAmount ''d1'' abi_0 [1]]) ''d1''
     = Inr (''d1'', 12, 24, 10, 1700000000, True, 0)"
proof -
  let ?s1 = "run mock_fhe (init_storage mock_fhe) [CreateDebtRecord alice ''d1'' 5 [1] 12 24]"
  let ?s2 = "run mock_fhe (init_storage mock_fhe)
       [CreateDebtRecord alice ''d1'' 5 [1] 12 24, VerifyDebtAmount ''d1'' abi_0 [1]]"
  have c: "createDebtRecord mock_fhe alice (init_storage mock_fhe) ''d1'' 5 [1] 12 24 = Inr ?s1"
    by (simp add: mock_eval)
  have k: "''d1'' \<noteq> []"
    by simp
  have v: "verifyDebtAmount mock_fhe ?s1 ''d1'' abi_0 [1] = Inr ?s2"
    by (simp add: mock_eval abi_decode_0)
  have e: "msg_sender alice = 10" "block_timestamp alice = 1700000000"
    by (simp_all add: alice_def)
  note t = decryptedAmount_zero_ambiguous [OF c k v abi_decode_0]
  show ?thesis
    by (simp only: t e)
qed

section \<open>Enumeration of the ids\<close>

lemma debtIds_verify: "debtIds (commit s (verifyDebtAmount F s key clear dp)) = debtIds s"
  by (auto simp: commit_def split: sum.splits elim: verifyDebtAmount_Inr)

lemma debtIds_run: "debtIds (run F s cs) = debtIds s @ created_ids F s cs"
proof (induction F s cs rule: created_ids.induct)
  case (2 F s e key ext ip rate months cs)
  show ?case
  proof (cases "createDebtRecord F e s key ext ip rate months")
    case (Inl err)
    with 2(1) show ?thesis by (simp add: commit_def)
  next
    case (Inr s')
    then have "debtIds s' = debtIds s @ [key]"
      by (rule createDebtRecord_Inr) simp
    with Inr 2(2) show ?thesis by (simp add: commit_def)
  qed
qed (simp_all add: debtIds_verify)

lemma same_ids_refl: "same_ids s s"
  by (simp add: same_ids_def)

lemma same_ids_create:
  assumes "same_ids s t"
  shows "same_ids (exec F s (CreateDebtRecord e key ext prf rate months))
                  (exec F t (CreateDebtRecord e key ext prf rate months))"
  using assms
  by (auto simp: same_ids_def createDebtRecord_def commit_def split: option.splits)

lemma same_ids_verify:
  assumes "same_ids s t"
  shows "same_ids s (exec F t (VerifyDebtAmount key clear prf))"
  using assms
  by (auto simp: same_ids_def verifyDebtAmount_def commit_def Let_def split: option.splits)

lemma debtIds_run_filter:
  "same_ids s t \<Longrightarrow>
     debtIds (run F s (filter (\<lambda>c. \<not> is_verify c) cs)) = debtIds (run F t cs)"
proof (induction cs arbitrary: s t)
  case Nil
  then show ?case by (simp add: same_ids_def)
next
  case (Cons c cs)
  show ?case
  proof (cases c)
    case (CreateDebtRecord e key ext ip rate months)
    with Cons.IH [OF same_ids_create [OF Cons.prems]] show ?thesis by simp
  next
    case (VerifyDebtAmount key clear dp)
    with Cons.IH [OF same_ids_verify [OF Cons.prems]] show ?thesis by simp
  qed (use Cons in simp_all)
qed

text \<open>
  C7. After any sequence of calls \<^verbatim>\<open>getAllDebtIds\<close> returns the ids it returned before
  followed by the ids of the \<^verbatim>\<open>createDebtRecord\<close> calls that succeeded, in the order of
  the calls; removing the \<^verbatim>\<open>verifyDebtAmount\<close> calls from the sequence does not change
  the list. The function returns the stored list as a value, so each call reflects the
  storage it is made in.
\<close>

theorem getAllDebtIds_insertion_order:
  "getAllDebtIds (run F s cs) = getAllDebtIds s @ created_ids F s cs
   \<and> getAllDebtIds (run F s (filter (\<lambda>c. \<not> is_verify c) cs)) = getAllDebtIds (run F s cs)"
  by (simp add: getAllDebtIds_def debtIds_run [of F s cs] debtIds_run_filter [OF same_ids_refl])

text \<open>
  Creating \<open>a\<close>, \<open>b\<close>, \<open>c\<close> in that order gives \<open>[a, b, c]\<close>, with and without
  verifications in between.
\<close>

theorem getAllDebtIds_insertion_order_witness:
  "getAllDebtIds (run mock_fhe (init_storage mock_fhe)
     [CreateDebtRecord alice ''a'' 5 [1] 12 24, VerifyDebtAmount ''a'' abi_1000 [1],
      CreateDebtRecord alice ''b'' 6 [1] 12 24, CreateDebtRecord alice ''c'' 7 [1] 12 24,
      VerifyDebtAmount ''c'' abi_2000 [1], GetAllDebtIds]) = [''a'', ''b'', ''c'']
   \<and> getAllDebtIds (run mock_fhe (init_storage mock_fhe)
     [CreateDebtRecord alice ''a'' 5 [1] 12 24,
      CreateDebtRecord alice ''b'' 6 [1] 12 24, CreateDebtRecord alice ''c'' 7 [1] 12 24,
      GetAllDebtIds]) = [''a'', ''b'', ''c'']"
proof -
  let ?cs = "[CreateDebtRecord alice ''a'' 5 [1] 12 24, VerifyDebtAmount ''a'' abi_1000 [1],
      CreateDebtRecord alice ''b'' 6 [1] 12 24, CreateDebtRecord alice ''c'' 7 [1] 12 24,
      VerifyDebtAmount ''c'' abi_2000 [1], GetAllDebtIds]"
  have c: "created_ids mock_fhe (init_storage mock_fhe) ?cs = [''a'', ''b'', ''c'']"
    by (simp add: mock_eval abi_decode_1000 abi_decode_2000)
  have i: "getAllDebtIds (init_storage mock_fhe) = []"
    by (simp add: getAllDebtIds_def init_storage_def)
  have f: "filter (\<lambda>c. \<not> is_verify c) ?cs =
     [CreateDebtRecord alice ''a'' 5 [1] 12 24,
      CreateDebtRecord alice ''b'' 6 [1] 12 24, CreateDebtRecord alice ''c'' 7 [1] 12 24,
      GetAllDebtIds]"
    by simp
  note t = getAllDebtIds_insertion_order [of mock_fhe "init_storage mock_fhe" ?cs]
  show ?thesis
    using t unfolding f c i by (simp only: append_Nil simp_thms)
qed

section \<open>The monthly payment is a read-only query\<close>

lemma unknown_id_no_record:
  assumes "s = run F (init_storage F) cs" and "key \<notin> set (debtIds s)"
  shows "debtId (debtRecords s key) = []"
proof -
  have inv: "ledger_inv s"
    using assms(1) ledger_inv_reachable by simp
  show ?thesis
  proof (cases "key = []")
    case True
    with inv show ?thesis unfolding ledger_inv_def by blast
  next
    case False
    with inv have "count_list (debtIds s) key =
        (if debtId (debtRecords s key) = [] then 0 else 1)"
      unfolding ledger_inv_def by blast
    moreover from assms(2) have "count_list (debtIds s) key = 0"
      by (simp add: count_list_0_iff)
    ultimately show ?thesis by (simp split: if_splits)
  qed
qed

lemma calculateMonthlyPayment_cong:
  assumes "debtId (debtRecords s k) = debtId (debtRecords t k)"
    and "interestRate (debtRecords s k) = interestRate (debtRecords t k)"
    and "termMonths (debtRecords s k) = termMonths (debtRecords t k)"
    and "encryptedAmount (debtRecords s k) = encryptedAmount (debtRecords t k)"
  shows "calculateMonthlyPayment F s k = calculateMonthlyPayment F t k"
  unfolding calculateMonthlyPayment_def assms ..

text \<open>
  C8. \<^verbatim>\<open>calculateMonthlyPayment\<close> fails with ``Debt record does not exist'' for an id
  with no stored record, in particular for an id that is not listed in a reachable
  storage, and as a \<^verbatim>\<open>view\<close> function leaves the storage as it is. A successful
  \<^verbatim>\<open>verifyDebtAmount\<close> changes the \<open>decryptedAmount\<close> and \<open>isVerified\<close> fields of its
  record (and appends its event) and nothing else, so \<^verbatim>\<open>calculateMonthlyPayment\<close> returns
  the same result for every id before and after it.
\<close>

theorem calculateMonthlyPayment_read_only:
  "(debtId (debtRecords s u) = [] \<longrightarrow> calculateMonthlyPayment F s u = Inl RecordNotFound)
   \<and> (s = run F (init_storage F) cs \<and> u \<notin> set (getAllDebtIds s)
        \<longrightarrow> calculateMonthlyPayment F s u = Inl RecordNotFound)
   \<and> exec F s (CalculateMonthlyPayment key) = s
   \<and> (verifyDebtAmount F s key clear dp = Inr s' \<longrightarrow>
        (\<exists>v. debtRecords s' = (debtRecords s)(key :=
                 (debtRecords s key)\<lparr>decryptedAmount := v, isVerified := True\<rparr>))
        \<and> debtIds s' = debtIds s \<and> grants s' = grants s
        \<and> (\<forall>k. calculateMonthlyPayment F s' k = calculateMonthlyPayment F s k))"
proof (intro conjI impI)
  show "calculateMonthlyPayment F s u = Inl RecordNotFound"
    if "debtId (debtRecords s u) = []"
    using that by (simp add: calculateMonthlyPayment_def)
  show "calculateMonthlyPayment F s u = Inl RecordNotFound"
    if "s = run F (init_storage F) cs \<and> u \<notin> set (getAllDebtIds s)"
  proof -
    note a = that [THEN conjunct1] and b = that [THEN conjunct2, unfolded getAllDebtIds_def]
    from unknown_id_no_record [OF a b] show ?thesis
      by (simp add: calculateMonthlyPayment_def)
  qed
  show "exec F s (CalculateMonthlyPayment key) = s"
    by simp
next
  assume v: "verifyDebtAmount F s key clear dp = Inr s'"
  from v obtain w where s': "s' = s\<lparr>debtRecords := (debtRecords s)(key :=
                      (debtRecords s key)\<lparr>decryptedAmount := w, isVerified := True\<rparr>),
                   events := events s @ [DebtVerification key w]\<rparr>"
    by (rule verifyDebtAmount_Inr)
  show "\<exists>v. debtRecords s' = (debtRecords s)(key :=
                 (debtRecords s key)\<lparr>decryptedAmount := v, isVerified := True\<rparr>)"
    using s' by auto
  show "debtIds s' = debtIds s" "grants s' = grants s"
    using s' by simp_all
  show "\<forall>k. calculateMonthlyPayment F s' k = calculateMonthlyPayment F s k"
  proof
    fix k
    show "calculateMonthlyPayment F s' k = calculateMonthlyPayment F s k"
      by (rule calculateMonthlyPayment_cong) (simp_all add: s')
  qed
qed

text \<open>The payment of \<open>d1\<close> before and after its verification, and the unknown id \<open>zz\<close>.\<close>

theorem calculateMonthlyPayment_read_only_witness:
  "calculateMonthlyPayment mock_fhe
       (run mock_fhe (init_storage mock_fhe) [CreateDebtRecord alice ''d1'' 5 [1] 12 24]) ''zz''
     = Inl RecordNotFound
   \<and> calculateMonthlyPayment mock_fhe
       (run mock_fhe (init_storage mock_fhe)
          [CreateDebtRecord alice ''d1'' 5 [1] 12 24, VerifyDebtAmount ''d1'' abi_1000 [1]]) ''d1''
     = calculateMonthlyPayment mock_fhe
       (run mock_fhe (init_storage mock_fhe) [CreateDebtRecord alice ''d1'' 5 [1] 12 24]) ''d1''
   \<and> isVerified (debtRecords (run mock_fhe (init_storage mock_fhe)
          [CreateDebtRecord alice ''d1'' 5 [1] 12 24, VerifyDebtAmount ''d1'' abi_1000 [1]]) ''d1'')"
proof -
  let ?s1 = "run mock_fhe (init_storage mock_fhe) [CreateDebtRecord alice ''d1'' 5 [1] 12 24]"
  let ?s2 = "run mock_fhe (init_storage mock_fhe)
          [CreateDebtRecord alice ''d1'' 5 [1] 12 24, VerifyDebtAmount ''d1'' abi_1000 [1]]"
  have u: "debtId (debtRecords ?s1 ''zz'') = []"
    by (simp add: mock_eval)
  have n: "?s1 = ?s1 \<and> ''zz'' \<notin> set (getAllDebtIds ?s1)"
    by (simp add: mock_eval)
  have v: "verifyDebtAmount mock_fhe ?s1 ''d1'' abi_1000 [1] = Inr ?s2"
    by (simp add: mock_eval abi_decode_1000)
  have f: "isVerified (debtRecords ?s2 ''d1'')"
    by (simp add: mock_eval abi_decode_1000)
  note t = calculateMonthlyPayment_read_only
    [of ?s1 "''zz''" mock_fhe "[CreateDebtRecord alice ''d1'' 5 [1] 12 24]" "''d1''" abi_1000 "[1]" ?s2]
  from t u n have "calculateMonthlyPayment mock_fhe ?s1 ''zz'' = Inl RecordNotFound"
    by blast
  moreover from t v
  have "calculateMonthlyPayment mock_fhe ?s2 ''d1'' = calculateMonthlyPayment mock_fhe ?s1 ''d1''"
    by blast
  ultimately show ?thesis
    using f by blast
qed

section \<open>Creation of records\<close>

lemma empty_id_never_stored:
  assumes "s = run F (init_storage F) cs"
  shows "debtId (debtRecords s []) = []"
proof -
  have "ledger_inv s"
    using assms ledger_inv_reachable by simp
  then show ?thesis
    unfolding ledger_inv_def by blast
qed

text \<open>
  C9. A record exists for the contract when its stored \<open>debtId\<close> is not the empty string.
  For the empty id that field is empty in every reachable storage, so
  \<^verbatim>\<open>createDebtRecord\<close> with the empty id never fails with ``Debt record already exists'';
  when the library admits the ciphertext the call succeeds, replaces the record stored
  under the empty id, its \<open>encryptedAmount\<close> included, and appends the empty id to the id
  list once more.
\<close>

theorem empty_id_never_duplicate:
  assumes "s = run F (init_storage F) cs"
  shows "createDebtRecord F e s [] ext ip rate months \<noteq> Inl DuplicateRecord
    \<and> (fromExternal F (msg_sender e) ext ip = Some h \<and> isInitialized F h \<longrightarrow>
         createDebtRecord F e s [] ext ip rate months =
           Inr (s\<lparr>debtRecords := (debtRecords s)([] :=
                        \<lparr>debtId = [], encryptedAmount = h, interestRate = rate,
                         termMonths = months, owner = msg_sender e,
                         creationDate = block_timestamp e, decryptedAmount = 0,
                         isVerified = False\<rparr>),
                     grants := grants s @ [AllowThis h, PubliclyDecryptable h],
                     debtIds := debtIds s @ [[]],
                     events := events s @ [DebtRecordCreated [] (msg_sender e)]\<rparr>)
         \<and> encryptedAmount (debtRecords
               (exec F s (CreateDebtRecord e [] ext ip rate months)) []) = h
         \<and> getAllDebtIds (exec F s (CreateDebtRecord e [] ext ip rate months))
             = getAllDebtIds s @ [[]])"
proof -
  have fresh: "debtId (debtRecords s []) = []"
    using assms by (rule empty_id_never_stored)
  then show ?thesis
    by (auto simp: createDebtRecord_def commit_def getAllDebtIds_def split: option.splits)
qed

text \<open>
  After a record was created for the empty id, a second creation with another ciphertext
  is accepted, stores the new handle and lists the empty id twice.
\<close>

theorem empty_id_never_duplicate_witness:
  "getAllDebtIds (run mock_fhe (init_storage mock_fhe)
      [CreateDebtRecord alice [] 5 [1] 12 24]) = [[]]
   \<and> createDebtRecord mock_fhe alice (run mock_fhe (init_storage mock_fhe)
        [CreateDebtRecord alice [] 5 [1] 12 24]) [] 7 [2] 6 36 \<noteq> Inl DuplicateRecord
   \<and> encryptedAmount (debtRecords (exec mock_fhe (run mock_fhe (init_storage mock_fhe)
        [CreateDebtRecord alice [] 5 [1] 12 24]) (CreateDebtRecord alice [] 7 [2] 6 36)) [])
      = Input 7
   \<and> getAllDebtIds (exec mock_fhe (run mock_fhe (init_storage mock_fhe)
        [CreateDebtRecord alice [] 5 [1] 12 24]) (CreateDebtRecord alice [] 7 [2] 6 36))
      = [[], []]"
proof -
  let ?s = "run mock_fhe (init_storage mock_fhe) [CreateDebtRecord alice [] 5 [1] 12 24]"
  have l: "getAllDebtIds ?s = [[]]"
    by (simp add: mock_eval)
  have a: "fromExternal mock_fhe (msg_sender alice) 7 [2] = Some (Input 7)
      \<and> isInitialized mock_fhe (Input 7)"
    by (simp add: mock_fhe_def)
  note t = empty_id_never_duplicate [OF refl, of mock_fhe alice
      "[CreateDebtRecord alice [] 5 [1] 12 24]" 7 "[2]" 6 36 "Input 7"]
  from t a have "createDebtRecord mock_fhe alice ?s [] 7 [2] 6 36 \<noteq> Inl DuplicateRecord"
    and "encryptedAmount (debtRecords
           (exec mock_fhe ?s (CreateDebtRecord alice [] 7 [2] 6 36)) []) = Input 7"
    and "getAllDebtIds (exec mock_fhe ?s (CreateDebtRecord alice [] 7 [2] 6 36))
           = getAllDebtIds ?s @ [[]]"
    by blast+
  then show ?thesis
    unfolding l by (simp only: append_Cons append_Nil l simp_thms)
qed

text \<open>
  C1. A \<^verbatim>\<open>createDebtRecord\<close> call for an id that already has a record is to fail with
  ``Debt record already exists'' and leave one record and one list entry for the id. The
  contract run on the empty id: the first call lists the id, the second call does not
  fail with that error, and the id is then listed twice.
\<close>

theorem empty_id_created_twice:
  "getAllDebtIds (run mock_fhe (init_storage mock_fhe)
      [CreateDebtRecord alice [] 5 [1] 12 24]) = [[]]
   \<and> createDebtRecord mock_fhe alice
       (run mock_fhe (init_storage mock_fhe) [CreateDebtRecord alice [] 5 [1] 12 24])
       [] 7 [1] 12 24 \<noteq> Inl DuplicateRecord
   \<and> getAllDebtIds (run mock_fhe (init_storage mock_fhe)
      [CreateDebtRecord alice [] 5 [1] 12 24, CreateDebtRecord alice [] 7 [1] 12 24])
     = [[], []]"
  by (simp add: mock_eval)

text \<open>
  For a non-empty id the check works: once the id is listed in a reachable storage,
  another \<^verbatim>\<open>createDebtRecord\<close> for it fails with ``Debt record already exists'', the
  storage stays as it was and the id is listed once.
\<close>

lemma createDebtRecord_duplicate_nonempty:
  assumes "s = run F (init_storage F) cs" and "key \<noteq> []" and "key \<in> set (debtIds s)"
  shows "createDebtRecord F e s key ext ip rate months = Inl DuplicateRecord
    \<and> exec F s (CreateDebtRecord e key ext ip rate months) = s
    \<and> count_list (getAllDebtIds s) key = 1"
proof -
  have "ledger_inv s"
    using assms(1) ledger_inv_reachable by simp
  with assms(2) have c: "count_list (debtIds s) key =
      (if debtId (debtRecords s key) = [] then 0 else 1)"
    unfolding ledger_inv_def by blast
  from assms(3) have "count_list (debtIds s) key \<noteq> 0"
    by (simp add: count_list_0_iff)
  with c have "debtId (debtRecords s key) \<noteq> []" and "count_list (debtIds s) key = 1"
    by (simp_all split: if_splits)
  then show ?thesis
    by (simp add: createDebtRecord_def commit_def getAllDebtIds_def)
qed

text \<open>
  A record with a non-empty stored id keeps that id and its \<open>encryptedAmount\<close> under every
  call, and so under every sequence of calls.
\<close>

lemma exec_keeps_existing_record:
  assumes "debtId (debtRecords s key) \<noteq> []"
  shows "debtId (debtRecords (exec F s c) key) = debtId (debtRecords s key)
    \<and> encryptedAmount (debtRecords (exec F s c) key) = encryptedAmount (debtRecords s key)"
proof (cases c)
  case (CreateDebtRecord e k ext ip rate months)
  show ?thesis
  proof (cases "createDebtRecord F e s k ext ip rate months")
    case (Inl err)
    with CreateDebtRecord show ?thesis by (simp add: commit_def)
  next
    case (Inr s')
    then have "debtId (debtRecords s k) = []" and "\<forall>j. j \<noteq> k \<longrightarrow> debtRecords s' j = debtRecords s j"
      by (rule createDebtRecord_Inr, simp)+
    with assms have "debtRecords s' key = debtRecords s key"
      by auto
    with Inr CreateDebtRecord show ?thesis by (simp add: commit_def)
  qed
next
  case (VerifyDebtAmount k clear dp)
  show ?thesis
  proof (cases "verifyDebtAmount F s k clear dp")
    case (Inl err)
    with VerifyDebtAmount show ?thesis by (simp add: commit_def)
  next
    case (Inr s')
    then have "debtId (debtRecords s' key) = debtId (debtRecords s key)
       \<and> encryptedAmount (debtRecords s' key) = encryptedAmount (debtRecords s key)"
      by (rule verifyDebtAmount_Inr) simp
    with Inr VerifyDebtAmount show ?thesis by (simp add: commit_def)
  qed
qed simp_all

lemma encryptedAmount_immutable_nonempty:
  "debtId (debtRecords s key) \<noteq> [] \<Longrightarrow>
     encryptedAmount (debtRecords (run F s cs) key) = encryptedAmount (debtRecords s key)"
proof (induction cs arbitrary: s)
  case Nil
  show ?case by simp
next
  case (Cons c cs)
  from exec_keeps_existing_record [OF Cons.prems, of F c]
  have e: "debtId (debtRecords (exec F s c) key) \<noteq> []"
    and a: "encryptedAmount (debtRecords (exec F s c) key) = encryptedAmount (debtRecords s key)"
    using Cons.prems by simp_all
  from Cons.IH [OF e] a show ?case by simp
qed

text \<open>
  C5. The \<open>encryptedAmount\<close> of a record is never to change after its creation. The
  contract run on the empty id: the record holds the handle of the first ciphertext after
  the first creation and the handle of the second ciphertext after the second.
\<close>

theorem empty_id_ciphertext_replaced:
  "encryptedAmount (debtRecords (run mock_fhe (init_storage mock_fhe)
      [CreateDebtRecord alice [] 5 [1] 12 24]) []) = Input 5
   \<and> encryptedAmount (debtRecords (run mock_fhe (init_storage mock_fhe)
      [CreateDebtRecord alice [] 5 [1] 12 24, CreateDebtRecord alice [] 7 [1] 12 24]) [])
     = Input 7"
  by (simp add: mock_eval)

section \<open>The amortization computation\<close>

lemma of_nat_mod_32: "(of_nat (n mod 2 ^ 32) :: uint32) = of_nat n"
  by (simp add: word_of_nat_eq_iff take_bit_eq_mod)

lemma ucast_scaled:
  fixes a :: uint256
  assumes "unat a * 1000 < 2 ^ 256"
  shows "(ucast (a * 1000) :: uint32) = of_nat ((unat a * 1000) mod 2 ^ 32)"
proof -
  have "unat (a * 1000) = unat a * unat (1000 :: uint256)"
    by (rule unat_mult_lem [THEN iffD1]) (use assms in simp)
  then have m: "unat (a * 1000) = unat a * 1000"
    by simp
  have "(ucast (a * 1000) :: uint32) = of_nat (unat (a * 1000))"
    by simp
  also have "\<dots> = of_nat (unat a * 1000)"
    by (simp only: m)
  also have "\<dots> = of_nat ((unat a * 1000) mod 2 ^ 32)"
    by (simp only: of_nat_mod_32)
  finally show ?thesis .
qed

lemma checked_mul_1000:
  "checked_mul a 1000 = (if unat a * 1000 < 2 ^ 256 then Some (a * 1000) else None)"
  by (simp add: checked_mul_def)

lemma round_scaled_rate:
  assumes "12 dvd n"
  shows "round (real n / 12 * 1000) = int (n div 12 * 1000)"
proof -
  from assms obtain q where n: "n = 12 * q" ..
  have "real n / 12 * 1000 = real (q * 1000)"
    by (simp add: n)
  then have "round (real n / 12 * 1000) = round (real (q * 1000))"
    by simp
  also have "\<dots> = int (q * 1000)"
    by (rule round_of_nat)
  finally show ?thesis
    by (simp add: n)
qed

lemma round_scaled_term: "round (real m * 1000) = int (m * 1000)"
proof -
  have "real m * 1000 = real (m * 1000)"
    by simp
  then have "round (real m * 1000) = round (real (m * 1000))"
    by simp
  then show ?thesis
    by (simp only: round_of_nat)
qed

lemma listed_nonempty_id_has_record:
  assumes "s = run F (init_storage F) cs" and "key \<noteq> []" and "key \<in> set (debtIds s)"
  shows "debtId (debtRecords s key) \<noteq> []"
proof -
  have "ledger_inv s"
    using assms(1) ledger_inv_reachable by simp
  with assms(2) have c: "count_list (debtIds s) key =
      (if debtId (debtRecords s key) = [] then 0 else 1)"
    unfolding ledger_inv_def by blast
  from assms(3) have "count_list (debtIds s) key \<noteq> 0"
    by (simp add: count_list_0_iff)
  with c show ?thesis
    by (simp split: if_splits)
qed

text \<open>
  C3, for the inputs on which the contract computes the specification's scaling. For a
  record created under a non-empty id whose annual rate is a multiple of 12 and whose
  scaled rate and term are below \<open>2^32\<close>, \<^verbatim>\<open>calculateMonthlyPayment\<close> returns the handle
  of \<open>numerator / denominator\<close> with \<open>rateFixed = round ((interestRate / 12) * 1000)\<close>,
  \<open>termFixed = round (termMonths * 1000)\<close>, the numerator the encrypted amount times the
  encrypted \<open>rateFixed\<close> and the denominator \<open>1000 - (1000 + rateFixed)^(-termFixed)\<close>;
  every operation is one of the library on handles, and the only field of the record
  passed to them is \<open>encryptedAmount\<close>.
\<close>

theorem calculateMonthlyPayment_amended:
  assumes "s = run F (init_storage F) cs"
    and "key \<noteq> []" and "key \<in> set (getAllDebtIds s)"
    and "12 dvd unat (interestRate (debtRecords s key))"
    and "unat (interestRate (debtRecords s key)) div 12 * 1000 < 2 ^ 32"
    and "unat (termMonths (debtRecords s key)) * 1000 < 2 ^ 32"
  shows "map_option Inr
           (monthlyPayment_amended F (encryptedAmount (debtRecords s key))
              (interestRate (debtRecords s key)) (termMonths (debtRecords s key)))
         = Some (calculateMonthlyPayment F s key)"
proof -
  let ?rate = "interestRate (debtRecords s key)"
  let ?r = "?rate div 12"
  let ?m = "termMonths (debtRecords s key)"
  let ?rf = "unat ?rate div 12 * 1000"
  let ?tf = "unat ?m * 1000"
  have ex: "debtId (debtRecords s key) \<noteq> []"
    using assms(1,2) assms(3) [unfolded getAllDebtIds_def]
    by (rule listed_nonempty_id_has_record)
  have d: "unat ?r = unat ?rate div 12"
    by (simp add: unat_div)
  have big: "(2 :: nat) ^ 32 \<le> 2 ^ 256"
    by simp
  have r: "unat ?r * 1000 < 2 ^ 256"
    using assms(5) big unfolding d by (rule less_le_trans)
  have m: "?tf < 2 ^ 256"
    using assms(6) big by (rule less_le_trans)
  have cr: "checked_mul ?r 1000 = Some (?r * 1000)"
    using r by (simp only: checked_mul_1000 if_True)
  have cm: "checked_mul ?m 1000 = Some (?m * 1000)"
    using m by (simp only: checked_mul_1000 if_True)
  have ur: "(ucast (?r * 1000) :: uint32) = of_nat ?rf"
    using ucast_scaled [OF r] by (simp only: d of_nat_mod_32)
  have um: "(ucast (?m * 1000) :: uint32) = of_nat ?tf"
    using ucast_scaled [OF m] by (simp only: of_nat_mod_32)
  have code: "calculateMonthlyPayment F s key =
      Inr (fhe_div F (fhe_mul F (encryptedAmount (debtRecords s key)) (fhe_encrypt F (of_nat ?rf)))
             (fhe_sub F (fhe_encrypt F 1000)
                (fhe_exp F (fhe_add F (fhe_encrypt F 1000) (fhe_encrypt F (of_nat ?rf)))
                   (fhe_sub F (fhe_encrypt F 0) (fhe_encrypt F (of_nat ?tf))))))"
    using ex
    by (simp only: calculateMonthlyPayment_def Let_def cr cm ur um
        option.case length_greater_0_conv not_not if_False simp_thms)
  have rr: "round (real (unat ?rate) / 12 * 1000) = int ?rf"
    by (rule round_scaled_rate [OF assms(4)])
  have rt: "round (real (unat ?m) * 1000) = int ?tf"
    by (rule round_scaled_term)
  have lr: "int ?rf < 2 ^ 32"
    using assms(5) by (simp only: of_nat_less_numeral_power_cancel_iff)
  have lt: "int ?tf < 2 ^ 32"
    using assms(6) by (simp only: of_nat_less_numeral_power_cancel_iff)
  have "monthlyPayment_amended F (encryptedAmount (debtRecords s key)) ?rate ?m =
      Some (fhe_div F (fhe_mul F (encryptedAmount (debtRecords s key)) (fhe_encrypt F (of_nat ?rf)))
             (fhe_sub F (fhe_encrypt F 1000)
                (fhe_exp F (fhe_add F (fhe_encrypt F 1000) (fhe_encrypt F (of_nat ?rf)))
                   (fhe_sub F (fhe_encrypt F 0) (fhe_encrypt F (of_nat ?tf))))))"
    using lr lt
    by (simp only: monthlyPayment_amended_def Let_def rr rt of_int_of_nat_eq simp_thms if_True)
  then show ?thesis
    by (simp only: code option.map)
qed

text \<open>
  The record \<open>d1\<close> with rate 12 and term 24: \<open>rateFixed = 1000\<close>, \<open>termFixed = 24000\<close>.
\<close>

theorem calculateMonthlyPayment_amended_witness:
  "calculateMonthlyPayment mock_fhe
     (run mock_fhe (init_storage mock_fhe) [CreateDebtRecord alice ''d1'' 5 [1] 12 24]) ''d1''
   = Inr (Div (Mul (Input 5) (Const 1000))
            (Sub (Const 1000)
               (Exp (Add (Const 1000) (Const 1000)) (Sub (Const 0) (Const 24000)))))"
proof -
  let ?s = "run mock_fhe (init_storage mock_fhe) [CreateDebtRecord alice ''d1'' 5 [1] 12 24]"
  have f: "encryptedAmount (debtRecords ?s ''d1'') = Input 5"
    "interestRate (debtRecords ?s ''d1'') = 12" "termMonths (debtRecords ?s ''d1'') = 24"
    by (simp_all add: mock_eval)
  have k: "''d1'' \<noteq> []" "''d1'' \<in> set (getAllDebtIds ?s)"
    by (simp_all add: mock_eval)
  have b: "12 dvd unat (interestRate (debtRecords ?s ''d1''))"
    "unat (interestRate (debtRecords ?s ''d1'')) div 12 * 1000 < 2 ^ 32"
    "unat (termMonths (debtRecords ?s ''d1'')) * 1000 < 2 ^ 32"
    unfolding f by simp_all
  have v: "monthlyPayment_amended mock_fhe (Input 5) 12 24 =
      Some (Div (Mul (Input 5) (Const 1000))
        (Sub (Const 1000) (Exp (Add (Const 1000) (Const 1000)) (Sub (Const 0) (Const 24000)))))"
    by (simp add: monthlyPayment_amended_def mock_fhe_def)
  note t = calculateMonthlyPayment_amended [OF refl k b]
  show ?thesis
    using t unfolding f v by (simp only: option.map option.inject)
qed

text \<open>
  C3, as the specification words it. On the record \<open>d1\<close> with rate 12 and term 24 the
  two scalings agree with the contract's, but the contract adds the encrypted 1000 to
  the encrypted rate where the specification's formula adds the encrypted 1. With the
  rate 11 the contract divides first, \<open>11 div 12 = 0\<close>, and encrypts the rate 0, where
  the specification's \<open>round ((11 / 12) * 1000)\<close> is 917.
\<close>

theorem monthlyPayment_spec_differs:
  "calculateMonthlyPayment mock_fhe
     (run mock_fhe (init_storage mock_fhe) [CreateDebtRecord alice ''d1'' 5 [1] 12 24]) ''d1''
     = Inr (Div (Mul (Input 5) (Const 1000))
              (Sub (Const 1000)
                 (Exp (Add (Const 1000) (Const 1000)) (Sub (Const 0) (Const 24000)))))
   \<and> monthlyPayment_spec mock_fhe (Input 5) 12 24
     = Some (Div (Mul (Input 5) (Const 1000))
         (Sub (Const 1000) (Exp (Add (Const 1) (Const 1000)) (Sub (Const 0) (Const 24000)))))
   \<and> map_option Inr (monthlyPayment_spec mock_fhe (Input 5) 12 24)
     \<noteq> Some (calculateMonthlyPayment mock_fhe
         (run mock_fhe (init_storage mock_fhe) [CreateDebtRecord alice ''d1'' 5 [1] 12 24])
         ''d1'')
   \<and> calculateMonthlyPayment mock_fhe
     (run mock_fhe (init_storage mock_fhe) [CreateDebtRecord alice ''d1'' 5 [1] 11 24]) ''d1''
     = Inr (Div (Mul (Input 5) (Const 0))
              (Sub (Const 1000)
                 (Exp (Add (Const 1000) (Const 0)) (Sub (Const 0) (Const 24000)))))
   \<and> monthlyPayment_spec mock_fhe (Input 5) 11 24
     = Some (Div (Mul (Input 5) (Const 917))
         (Sub (Const 1000) (Exp (Add (Const 1) (Const 917)) (Sub (Const 0) (Const 24000)))))"
  by (simp add: mock_eval monthlyPayment_spec_def round_def)

text \<open>
  The arithmetic failure the function has: it panics exactly when
  \<open>(interestRate div 12) * 1000\<close> or \<open>termMonths * 1000\<close> does not fit in 256 bits, the
  width of the checked multiplications, and returns a handle otherwise.
\<close>

lemma calculateMonthlyPayment_panic_iff:
  assumes "debtId (debtRecords s key) \<noteq> []"
  shows "(calculateMonthlyPayment F s key = Inl Panic_overflow
           \<longleftrightarrow> 2 ^ 256 \<le> unat (interestRate (debtRecords s key)) div 12 * 1000
               \<or> 2 ^ 256 \<le> unat (termMonths (debtRecords s key)) * 1000)
    \<and> ((\<exists>h. calculateMonthlyPayment F s key = Inr h)
           \<longleftrightarrow> unat (interestRate (debtRecords s key)) div 12 * 1000 < 2 ^ 256
               \<and> unat (termMonths (debtRecords s key)) * 1000 < 2 ^ 256)"
proof -
  let ?r = "interestRate (debtRecords s key) div 12"
  let ?m = "termMonths (debtRecords s key)"
  have d: "unat (interestRate (debtRecords s key)) div 12 = unat ?r"
    by (simp add: unat_div)
  show ?thesis
    using assms unfolding d
    by (cases "unat ?r * 1000 < 2 ^ 256"; cases "unat ?m * 1000 < 2 ^ 256")
       (simp_all add: calculateMonthlyPayment_def checked_mul_1000 Let_def not_less not_le)
qed

text \<open>
  A term of \<open>2^255\<close> months panics; a rate whose scaling needs more than 32 bits, but not
  more than 256, returns a handle.
\<close>

lemma calculateMonthlyPayment_panic_example:
  "calculateMonthlyPayment mock_fhe
     (run mock_fhe (init_storage mock_fhe)
        [CreateDebtRecord alice ''d2'' 5 [1] 12 (2 ^ 255)]) ''d2'' = Inl Panic_overflow
   \<and> (\<exists>h. calculateMonthlyPayment mock_fhe
     (run mock_fhe (init_storage mock_fhe)
        [CreateDebtRecord alice ''d1'' 5 [1] 51539616 24]) ''d1'' = Inr h)"
proof -
  let ?s1 = "run mock_fhe (init_storage mock_fhe)
        [CreateDebtRecord alice ''d1'' 5 [1] 51539616 24]"
  let ?s2 = "run mock_fhe (init_storage mock_fhe)
        [CreateDebtRecord alice ''d2'' 5 [1] 12 (2 ^ 255)]"
  have a1: "debtId (debtRecords ?s1 ''d1'') \<noteq> []"
    by (simp add: mock_eval)
  have a2: "debtId (debtRecords ?s2 ''d2'') \<noteq> []"
    by (simp add: mock_eval)
  have f1: "unat (interestRate (debtRecords ?s1 ''d1'')) div 12 * 1000 < 2 ^ 256
      \<and> unat (termMonths (debtRecords ?s1 ''d1'')) * 1000 < 2 ^ 256"
    by (simp add: mock_eval)
  have f2: "2 ^ 256 \<le> unat (termMonths (debtRecords ?s2 ''d2'')) * 1000"
    by (simp add: mock_eval)
  from calculateMonthlyPayment_panic_iff [OF a2, of mock_fhe] f2
  have "calculateMonthlyPayment mock_fhe ?s2 ''d2'' = Inl Panic_overflow"
    by blast
  moreover from calculateMonthlyPayment_panic_iff [OF a1, of mock_fhe] f1
  have "\<exists>h. calculateMonthlyPayment mock_fhe ?s1 ''d1'' = Inr h"
    by blast
  ultimately show ?thesis
    by blast
qed

text \<open>
  C6. \<^verbatim>\<open>calculateMonthlyPayment\<close> is to fail when a scaled value does not fit in the
  32-bit domain. The contract run on a record with the rate 51539616: the scaled monthly
  rate is 4294968000, which is \<open>2^32 + 704\<close>; the multiplication is checked at 256 bits
  and passes, the conversion \<^verbatim>\<open>uint32(...)\<close> keeps the low 32 bits, and the call returns
  the payment computed from the rate 704.
\<close>

theorem overflow_32_bits_not_reported:
  "(2 :: nat) ^ 32 \<le> unat (interestRate (debtRecords
       (run mock_fhe (init_storage mock_fhe)
          [CreateDebtRecord alice ''d1'' 5 [1] 51539616 24]) ''d1'')) div 12 * 1000
   \<and> calculateMonthlyPayment mock_fhe
       (run mock_fhe (init_storage mock_fhe)
          [CreateDebtRecord alice ''d1'' 5 [1] 51539616 24]) ''d1''
     = Inr (Div (Mul (Input 5) (Const 704))
              (Sub (Const 1000)
                 (Exp (Add (Const 1000) (Const 704)) (Sub (Const 0) (Const 24000)))))"
  by (simp add: mock_eval)

end
